theory Spec2Isabelle
  imports Complex_Main
begin

section \<open>Shallow embedding of tools/labs/vm\_shutdown.py\<close>

text \<open>
  The script talks to the hypervisor through three \<^verbatim>\<open>virsh\<close> commands, reads the wall
  clock and sleeps. All of that is the environment: a record of scripted responses,
  indexed by the number of the call. The script itself is a function from the
  configuration and the environment to its exit result and to the ordered list of
  everything it did (the trace).

  Python floats are modelled by \<open>pyfloat\<close>: a finite float is a real number (exact
  arithmetic, rounding is not modelled), and the three special values that
  \<^verbatim>\<open>optparse\<close> accepts for a \<^verbatim>\<open>type="float"\<close> option (\<^verbatim>\<open>inf\<close>, \<^verbatim>\<open>-inf\<close>, \<^verbatim>\<open>nan\<close>) are
  kept apart. Clock readings are always finite.
\<close>

subsection \<open>Errors, floats, results\<close>

datatype py_error = CalledProcessError | OverflowError | ValueError | ZeroDivisionError

datatype pyfloat = Fin real | PInf | NInf | NaN

text \<open>\<^verbatim>\<open>t > x\<close>, \<^verbatim>\<open>t < x\<close> and \<^verbatim>\<open>t <= x\<close> for a finite \<open>t\<close>; every comparison with NaN is false.\<close>

fun gt_rf :: "real \<Rightarrow> pyfloat \<Rightarrow> bool" where
  "gt_rf t (Fin x) = (t > x)"
| "gt_rf t PInf = False"
| "gt_rf t NInf = True"
| "gt_rf t NaN = False"

fun lt_rf :: "real \<Rightarrow> pyfloat \<Rightarrow> bool" where
  "lt_rf t (Fin x) = (t < x)"
| "lt_rf t PInf = True"
| "lt_rf t NInf = False"
| "lt_rf t NaN = False"


text \<open>\<^verbatim>\<open>x - t\<close> for a finite \<open>t\<close>.\<close>

fun sub_fr :: "pyfloat \<Rightarrow> real \<Rightarrow> pyfloat" where
  "sub_fr (Fin x) t = Fin (x - t)"
| "sub_fr PInf t = PInf"
| "sub_fr NInf t = NInf"
| "sub_fr NaN t = NaN"

text \<open>\<^verbatim>\<open>a / x\<close> for a finite \<open>a\<close>: Python raises on a zero divisor.\<close>

fun div_rf :: "real \<Rightarrow> pyfloat \<Rightarrow> py_error + pyfloat" where
  "div_rf a (Fin x) = (if x = 0 then Inl ZeroDivisionError else Inr (Fin (a / x)))"
| "div_rf a PInf = Inr (Fin 0)"
| "div_rf a NInf = Inr (Fin 0)"
| "div_rf a NaN = Inr NaN"

text \<open>\<^verbatim>\<open>int(x)\<close>: truncation towards zero; infinities and NaN raise.\<close>

fun py_int :: "pyfloat \<Rightarrow> py_error + int" where
  "py_int (Fin x) = Inr (if 0 \<le> x then \<lfloor>x\<rfloor> else \<lceil>x\<rceil>)"
| "py_int PInf = Inl OverflowError"
| "py_int NInf = Inl OverflowError"
| "py_int NaN = Inl ValueError"

text \<open>\<^verbatim>\<open>time.sleep(x)\<close>: a negative or NaN length is a ValueError, an infinite one
  an OverflowError.\<close>

fun py_sleep :: "pyfloat \<Rightarrow> py_error option" where
  "py_sleep (Fin x) = (if x < 0 then Some ValueError else None)"
| "py_sleep PInf = Some OverflowError"
| "py_sleep NInf = Some OverflowError"
| "py_sleep NaN = Some ValueError"

text \<open>How the process ends: \<^verbatim>\<open>exit(n)\<close>, or an exception nobody catches.\<close>

datatype result = Exit nat | Uncaught py_error

subsection \<open>Configuration and environment\<close>

record config =
  interval :: pyfloat
  timeout :: pyfloat
  kill :: bool
  verbose :: bool
  zenity :: bool

text \<open>
  \<open>virsh_list e k\<close> is what the \<open>k\<close>-th \<^verbatim>\<open>virsh list\<close> prints (call 0 is the one before
  dispatch, call \<open>k\<close> the one at the end of loop iteration \<open>k\<close>), or the
  CalledProcessError of \<^verbatim>\<open>check_output\<close>. \<open>virsh_shutdown e i vm\<close> and
  \<open>virsh_destroy e i vm\<close> are the return codes of the \<open>i\<close>-th call of their loop.
  \<open>clock e 0\<close> is the reading \<^verbatim>\<open>t0\<close>, \<open>clock e k\<close> the reading of iteration \<open>k\<close>.
\<close>

record env =
  virsh_list :: "nat \<Rightarrow> py_error + string"
  virsh_shutdown :: "nat \<Rightarrow> string \<Rightarrow> int"
  virsh_destroy :: "nat \<Rightarrow> string \<Rightarrow> int"
  clock :: "nat \<Rightarrow> real"

subsection \<open>The trace\<close>

datatype msg =
    MsgSummary nat pyfloat bool
  | MsgZenitySending
  | MsgShutdownError string int
  | MsgDispatchFailed
  | MsgZenityWaiting nat int
  | MsgZenityPercent int
  | MsgStillWaiting real nat
  | MsgVmList "string list"
  | MsgTimeoutKill pyfloat
  | MsgZenityKill nat
  | MsgDestroyError string int
  | MsgDestroyFailed
  | MsgTimeout pyfloat
  | MsgAllDown bool
  | MsgZenityDone

datatype event =
    ListRunning "py_error + string list"
  | VirshShutdown string int
  | VirshDestroy string int
  | TimeNow real
  | Sleep pyfloat
  | Print msg

subsection \<open>list\_running\_vms\<close>

definition is_space :: "char \<Rightarrow> bool" where
  "is_space c = (c \<in> set [CHR 0x09, CHR 0x0A, CHR 0x0B, CHR 0x0C, CHR 0x0D,
                            CHR 0x1C, CHR 0x1D, CHR 0x1E, CHR 0x1F, CHR 0x20])"

definition strip :: "string \<Rightarrow> string" where
  "strip s = rev (dropWhile is_space (rev (dropWhile is_space s)))"

text \<open>\<^verbatim>\<open>s.split("\n")\<close>\<close>

fun split_nl :: "string \<Rightarrow> string list" where
  "split_nl [] = [[]]"
| "split_nl (c # cs) =
     (if c = CHR 0x0A then [] # split_nl cs
      else (case split_nl cs of [] \<Rightarrow> [[c]] | w # ws \<Rightarrow> (c # w) # ws))"

definition list_running_vms :: "env \<Rightarrow> nat \<Rightarrow> py_error + string list" where
  "list_running_vms e k =
     (case virsh_list e k of
        Inl err \<Rightarrow> Inl err
      | Inr out \<Rightarrow> (let as_string = strip out
                    in Inr (if as_string = [] then [] else split_nl as_string)))"

subsection \<open>The two request loops\<close>

text \<open>Lines 53-60: the loop over \<^verbatim>\<open>running_vms\<close> that sends \<^verbatim>\<open>virsh shutdown\<close>.\<close>

fun dispatch_shutdown :: "env \<Rightarrow> nat \<Rightarrow> string list \<Rightarrow> bool \<Rightarrow> event list \<times> bool" where
  "dispatch_shutdown e i [] any_errors = ([], any_errors)"
| "dispatch_shutdown e i (vm # vms) any_errors =
     (let ok = virsh_shutdown e i vm;
          evs = VirshShutdown vm ok # (if ok \<noteq> 0 then [Print (MsgShutdownError vm ok)] else []);
          r = dispatch_shutdown e (Suc i) vms (if ok \<noteq> 0 then True else any_errors)
      in (evs @ fst r, snd r))"

text \<open>Lines 85-93: the loop over \<^verbatim>\<open>running_vms\<close> that sends \<^verbatim>\<open>virsh destroy\<close>.\<close>

fun force_terminate :: "config \<Rightarrow> env \<Rightarrow> nat \<Rightarrow> string list \<Rightarrow> bool \<Rightarrow> event list \<times> bool" where
  "force_terminate cfg e i [] any_errors = ([], any_errors)"
| "force_terminate cfg e i (vm # vms) any_errors =
     (let ok = virsh_destroy e i vm;
          evs = VirshDestroy vm ok #
                (if ok \<noteq> 0 \<and> verbose cfg then [Print (MsgDestroyError vm ok)] else []);
          r = force_terminate cfg e (Suc i) vms (if ok \<noteq> 0 then True else any_errors)
      in (evs @ fst r, snd r))"

subsection \<open>One iteration of the poll loop\<close>

text \<open>Lines 72-75: the two progress lines for zenity. The first is printed before the
  second is computed, so an exception in the second leaves the first in the trace.\<close>

definition zenity_progress :: "config \<Rightarrow> real \<Rightarrow> nat \<Rightarrow> event list \<times> py_error option" where
  "zenity_progress cfg t num_of_vms =
     (case py_int (sub_fr (timeout cfg) t) of
        Inl err \<Rightarrow> ([], Some err)
      | Inr left \<Rightarrow>
          (if lt_rf t (timeout cfg) then
             (case div_rf (100 * t) (timeout cfg) of
                Inl err \<Rightarrow> ([Print (MsgZenityWaiting num_of_vms left)], Some err)
              | Inr q \<Rightarrow>
                  (case py_int q of
                     Inl err \<Rightarrow> ([Print (MsgZenityWaiting num_of_vms left)], Some err)
                   | Inr p \<Rightarrow> ([Print (MsgZenityWaiting num_of_vms left),
                                Print (MsgZenityPercent p)], None)))
           else ([Print (MsgZenityWaiting num_of_vms left), Print (MsgZenityPercent 99)], None)))"

datatype step = Continue "string list" | Break | Stop result

text \<open>Lines 70-102, the body of \<^verbatim>\<open>while running_vms\<close> in iteration \<open>k\<close>.\<close>

definition poll_body ::
  "config \<Rightarrow> env \<Rightarrow> real \<Rightarrow> nat \<Rightarrow> string list \<Rightarrow> bool \<Rightarrow> event list \<times> step" where
  "poll_body cfg e t0 k running_vms any_errors =
     (let num_of_vms = length running_vms;
          now = clock e k;
          t = now - t0;
          z = (if zenity cfg then zenity_progress cfg t num_of_vms else ([], None));
          ev1 = TimeNow now # fst z
      in case snd z of
           Some err \<Rightarrow> (ev1, Stop (Uncaught err))
         | None \<Rightarrow>
            (let ev2 = ev1 @ (if verbose cfg \<or> gt_rf t (timeout cfg)
                              then [Print (MsgStillWaiting t num_of_vms),
                                    Print (MsgVmList running_vms)]
                              else [])
             in if gt_rf t (timeout cfg) then
                  (if kill cfg then
                     (let ev3 = ev2 @ Print (MsgTimeoutKill (timeout cfg)) #
                                  (if zenity cfg then [Print (MsgZenityKill num_of_vms)] else []);
                          d = force_terminate cfg e 0 running_vms any_errors
                      in if snd d then (ev3 @ fst d @ [Print MsgDestroyFailed], Stop (Exit 3))
                         else (ev3 @ fst d, Break))
                   else (ev2 @ [Print (MsgTimeout (timeout cfg))], Stop (Exit 1)))
                else
                  (case py_sleep (interval cfg) of
                     Some err \<Rightarrow> (ev2, Stop (Uncaught err))
                   | None \<Rightarrow>
                      (case list_running_vms e k of
                         Inl err \<Rightarrow> (ev2 @ [Sleep (interval cfg), ListRunning (Inl err)],
                                     Stop (Uncaught err))
                       | Inr vms \<Rightarrow> (ev2 @ [Sleep (interval cfg), ListRunning (Inr vms)],
                                     Continue vms)))))"

subsection \<open>The poll loop and the whole script\<close>

text \<open>
  The loop can run for ever (machines that never stop under an infinite timeout, a
  clock that stands still), so it takes fuel: the number of iterations it may still
  start. Out of fuel the result is \<open>None\<close> and the trace is what has happened so far.
  The loop condition is tested before the fuel.
\<close>

datatype loop_end = LoopDone | LoopExit result

fun poll_loop ::
  "nat \<Rightarrow> config \<Rightarrow> env \<Rightarrow> real \<Rightarrow> nat \<Rightarrow> string list \<Rightarrow> bool \<Rightarrow> loop_end option \<times> event list" where
  "poll_loop 0 cfg e t0 k running_vms any_errors =
     (if running_vms = [] then (Some LoopDone, []) else (None, []))"
| "poll_loop (Suc n) cfg e t0 k running_vms any_errors =
     (if running_vms = [] then (Some LoopDone, [])
      else (let b = poll_body cfg e t0 k running_vms any_errors
            in case snd b of
                 Continue vms \<Rightarrow>
                   (let r = poll_loop n cfg e t0 (Suc k) vms any_errors
                    in (fst r, fst b @ snd r))
               | Break \<Rightarrow> (Some LoopDone, fst b)
               | Stop res \<Rightarrow> (Some (LoopExit res), fst b)))"

text \<open>Lines 43-107.\<close>

definition run :: "nat \<Rightarrow> config \<Rightarrow> env \<Rightarrow> result option \<times> event list" where
  "run n cfg e =
     (case list_running_vms e 0 of
        Inl err \<Rightarrow> (Some (Uncaught err), [ListRunning (Inl err)])
      | Inr running_vms \<Rightarrow>
         (let ev1 = [ListRunning (Inr running_vms),
                     Print (MsgSummary (length running_vms) (timeout cfg) (kill cfg))]
                    @ (if zenity cfg then [Print MsgZenitySending] else []);
              d = dispatch_shutdown e 0 running_vms False;
              any_errors = snd d
          in if any_errors then (Some (Exit 3), ev1 @ fst d @ [Print MsgDispatchFailed])
             else
               (let t0 = clock e 0;
                    p = poll_loop n cfg e t0 1 running_vms any_errors;
                    ev2 = ev1 @ fst d @ TimeNow t0 # snd p
                in case fst p of
                     None \<Rightarrow> (None, ev2)
                   | Some (LoopExit res) \<Rightarrow> (Some res, ev2)
                   | Some LoopDone \<Rightarrow>
                       (Some (Exit 0),
                        ev2 @ Print (MsgAllDown (zenity cfg)) #
                              (if zenity cfg then [Print MsgZenityDone] else [])))))"

subsection \<open>Reading a trace\<close>

fun is_print :: "event \<Rightarrow> bool" where
  "is_print (Print m) = True"
| "is_print ev = False"

text \<open>What the script did to the outside world, without what it printed.\<close>

definition actions :: "event list \<Rightarrow> event list" where
  "actions tr = filter (\<lambda>ev. \<not> is_print ev) tr"

fun shutdown_of :: "event \<Rightarrow> (string \<times> int) list" where
  "shutdown_of (VirshShutdown vm rc) = [(vm, rc)]"
| "shutdown_of ev = []"

fun destroy_of :: "event \<Rightarrow> (string \<times> int) list" where
  "destroy_of (VirshDestroy vm rc) = [(vm, rc)]"
| "destroy_of ev = []"

fun clock_of :: "event \<Rightarrow> real list" where
  "clock_of (TimeNow now) = [now]"
| "clock_of ev = []"

fun list_of :: "event \<Rightarrow> (py_error + string list) list" where
  "list_of (ListRunning r) = [r]"
| "list_of ev = []"

fun sleep_of :: "event \<Rightarrow> pyfloat list" where
  "sleep_of (Sleep d) = [d]"
| "sleep_of ev = []"

fun print_of :: "event \<Rightarrow> msg list" where
  "print_of (Print m) = [m]"
| "print_of ev = []"

text \<open>The requests of each kind, in the order they were made, each with its answer.\<close>

definition shutdown_calls :: "event list \<Rightarrow> (string \<times> int) list" where
  "shutdown_calls tr = concat (map shutdown_of tr)"

definition destroy_calls :: "event list \<Rightarrow> (string \<times> int) list" where
  "destroy_calls tr = concat (map destroy_of tr)"

definition clock_reads :: "event list \<Rightarrow> real list" where
  "clock_reads tr = concat (map clock_of tr)"

definition list_results :: "event list \<Rightarrow> (py_error + string list) list" where
  "list_results tr = concat (map list_of tr)"

definition sleeps :: "event list \<Rightarrow> pyfloat list" where
  "sleeps tr = concat (map sleep_of tr)"

definition prints :: "event list \<Rightarrow> msg list" where
  "prints tr = concat (map print_of tr)"

definition failed :: "(string \<times> int) list \<Rightarrow> bool" where
  "failed calls = list_ex (\<lambda>c. snd c \<noteq> 0) calls"

subsection \<open>Example environments\<close>

text \<open>Three machines; the second \<^verbatim>\<open>virsh shutdown\<close> fails with code 1.\<close>

definition env_dispatch_fails :: env where
  "env_dispatch_fails =
     \<lparr> virsh_list = (\<lambda>k. Inr ''a\<newline>b\<newline>c\<newline>''),
       virsh_shutdown = (\<lambda>i vm. if i = 1 then 1 else 0),
       virsh_destroy = (\<lambda>i vm. 0),
       clock = (\<lambda>k. real k) \<rparr>"

definition cfg_default :: config where
  "cfg_default = \<lparr> interval = Fin 1, timeout = Fin 30, kill = False, verbose = False,
                   zenity = False \<rparr>"

subsection \<open>The phase flags of a run, and the exit-code table\<close>

text \<open>Some clock reading of the poll loop lies more than the timeout after \<open>t0\<close>.\<close>

definition deadline_passed :: "config \<Rightarrow> real \<Rightarrow> event list \<Rightarrow> bool" where
  "deadline_passed cfg t0 evs = list_ex (\<lambda>now. gt_rf (now - t0) (timeout cfg)) (clock_reads evs)"

text \<open>The same, read off the trace of a whole run: its first clock reading is \<^verbatim>\<open>t0\<close>.\<close>

definition timed_out :: "config \<Rightarrow> event list \<Rightarrow> bool" where
  "timed_out cfg tr =
     (case clock_reads tr of [] \<Rightarrow> False | t0 # rest \<Rightarrow> list_ex (\<lambda>now. gt_rf (now - t0) (timeout cfg)) rest)"

text \<open>The exit-code table of the specification, in the precedence order of its
  outcome resolver. This definition follows the specification, not the script.\<close>

definition spec_exit_code :: "bool \<Rightarrow> bool \<Rightarrow> bool \<Rightarrow> bool \<Rightarrow> nat" where
  "spec_exit_code anyDispatchFailed timedOut forcing anyForceFailed =
     (if anyDispatchFailed then 3
      else if \<not> timedOut then 0
      else if \<not> forcing then 1
      else if anyForceFailed then 3
      else 0)"

text \<open>How the way the poll loop ended relates to the deadline and to the
  \<^verbatim>\<open>virsh destroy\<close> requests in its trace.\<close>

definition loop_end_ok :: "config \<Rightarrow> loop_end option \<Rightarrow> bool \<Rightarrow> (string \<times> int) list \<Rightarrow> bool" where
  "loop_end_ok cfg r passed destroys =
     (case r of
        None \<Rightarrow> \<not> passed \<and> destroys = []
      | Some LoopDone \<Rightarrow> (if passed then kill cfg \<and> \<not> failed destroys else destroys = [])
      | Some (LoopExit (Exit c)) \<Rightarrow>
          passed \<and> (if kill cfg then c = 3 \<and> failed destroys else c = 1 \<and> destroys = [])
      | Some (LoopExit (Uncaught err)) \<Rightarrow> destroys = [] \<and> ((zenity cfg \<longrightarrow> timeout cfg \<noteq> NInf) \<longrightarrow> \<not> passed))"

text \<open>Three machines that are gone at the second poll; the clock advances one second
  per reading.\<close>

definition env_stop_after_2 :: env where
  "env_stop_after_2 =
     \<lparr> virsh_list = (\<lambda>k. if k < 2 then Inr ''a\<newline>b\<newline>c\<newline>'' else Inr ''\<newline>''),
       virsh_shutdown = (\<lambda>i vm. 0),
       virsh_destroy = (\<lambda>i vm. 0),
       clock = (\<lambda>k. real k) \<rparr>"

text \<open>Two machines that never stop.\<close>

definition env_never_stop :: env where
  "env_never_stop =
     \<lparr> virsh_list = (\<lambda>k. Inr ''a\<newline>b\<newline>''),
       virsh_shutdown = (\<lambda>i vm. 0),
       virsh_destroy = (\<lambda>i vm. 0),
       clock = (\<lambda>k. real k) \<rparr>"

text \<open>The same, and the first \<^verbatim>\<open>virsh destroy\<close> fails.\<close>

definition env_destroy_fails :: env where
  "env_destroy_fails =
     \<lparr> virsh_list = (\<lambda>k. Inr ''a\<newline>b\<newline>''),
       virsh_shutdown = (\<lambda>i vm. 0),
       virsh_destroy = (\<lambda>i vm. if i = 0 then 1 else 0),
       clock = (\<lambda>k. real k) \<rparr>"

definition cfg_t5 :: config where
  "cfg_t5 = \<lparr> interval = Fin 1, timeout = Fin 5, kill = False, verbose = False, zenity = False \<rparr>"

definition cfg_t2_kill :: config where
  "cfg_t2_kill = \<lparr> interval = Fin 1, timeout = Fin 2, kill = True, verbose = False, zenity = False \<rparr>"

definition cfg_t2 :: config where
  "cfg_t2 = \<lparr> interval = Fin 1, timeout = Fin 2, kill = False, verbose = False, zenity = False \<rparr>"

subsection \<open>Order of events in a trace\<close>

text \<open>An event of the poll loop: an inventory query, a clock reading or a sleep.\<close>

fun is_poll :: "event \<Rightarrow> bool" where
  "is_poll (ListRunning r) = True"
| "is_poll (TimeNow now) = True"
| "is_poll (Sleep d) = True"
| "is_poll ev = False"

fun is_destroy :: "event \<Rightarrow> bool" where
  "is_destroy (VirshDestroy vm rc) = True"
| "is_destroy ev = False"

text \<open>Once a \<^verbatim>\<open>virsh destroy\<close> has been sent (\<open>seen\<close>), no later event is an event of
  the poll loop.\<close>

fun no_poll_after_destroy :: "bool \<Rightarrow> event list \<Rightarrow> bool" where
  "no_poll_after_destroy seen [] = True"
| "no_poll_after_destroy seen (ev # tr) =
     ((seen \<longrightarrow> \<not> is_poll ev) \<and> no_poll_after_destroy (seen \<or> is_destroy ev) tr)"

text \<open>The running set the script holds at the end of a trace: the answer to the last
  inventory query (\<open>R\<close> when the trace has none).\<close>

definition last_listed_from :: "string list \<Rightarrow> event list \<Rightarrow> string list" where
  "last_listed_from R tr =
     (case rev (list_results tr) of [] \<Rightarrow> R | Inr vms # rs \<Rightarrow> vms | Inl err # rs \<Rightarrow> [])"

definition last_listed :: "event list \<Rightarrow> string list" where
  "last_listed tr = last_listed_from [] tr"

text \<open>Machine \<open>a\<close> is gone at the first poll, but a machine \<open>b\<close> has appeared and stays.\<close>

definition env_late_machine :: env where
  "env_late_machine =
     \<lparr> virsh_list = (\<lambda>k. if k = 0 then Inr ''a\<newline>'' else Inr ''b\<newline>''),
       virsh_shutdown = (\<lambda>i vm. 0),
       virsh_destroy = (\<lambda>i vm. 0),
       clock = (\<lambda>k. real k) \<rparr>"


text \<open>Configurations with an infinite timeout (\<^verbatim>\<open>--timeout inf\<close>), and with both output flags.\<close>

definition cfg_inf_zenity :: config where
  "cfg_inf_zenity = \<lparr> interval = Fin 1, timeout = PInf, kill = False, verbose = False,
                      zenity = True \<rparr>"

definition cfg_inf :: config where
  "cfg_inf = \<lparr> interval = Fin 1, timeout = PInf, kill = False, verbose = False,
               zenity = False \<rparr>"


section \<open>Properties\<close>

subsection \<open>Traces\<close>

lemma shutdown_calls_simps:
  "shutdown_calls [] = []"
  "shutdown_calls (ev # tr) = shutdown_of ev @ shutdown_calls tr"
  "shutdown_calls (tr @ tr') = shutdown_calls tr @ shutdown_calls tr'"
  by (simp_all add: shutdown_calls_def)

lemma destroy_calls_simps:
  "destroy_calls [] = []"
  "destroy_calls (ev # tr) = destroy_of ev @ destroy_calls tr"
  "destroy_calls (tr @ tr') = destroy_calls tr @ destroy_calls tr'"
  by (simp_all add: destroy_calls_def)

lemma clock_reads_simps:
  "clock_reads [] = []"
  "clock_reads (ev # tr) = clock_of ev @ clock_reads tr"
  "clock_reads (tr @ tr') = clock_reads tr @ clock_reads tr'"
  by (simp_all add: clock_reads_def)

lemma list_results_simps:
  "list_results [] = []"
  "list_results (ev # tr) = list_of ev @ list_results tr"
  "list_results (tr @ tr') = list_results tr @ list_results tr'"
  by (simp_all add: list_results_def)

lemma sleeps_simps:
  "sleeps [] = []"
  "sleeps (ev # tr) = sleep_of ev @ sleeps tr"
  "sleeps (tr @ tr') = sleeps tr @ sleeps tr'"
  by (simp_all add: sleeps_def)

lemma prints_simps:
  "prints [] = []"
  "prints (ev # tr) = print_of ev @ prints tr"
  "prints (tr @ tr') = prints tr @ prints tr'"
  by (simp_all add: prints_def)

lemma actions_simps:
  "actions [] = []"
  "actions (ev # tr) = (if is_print ev then actions tr else ev # actions tr)"
  "actions (tr @ tr') = actions tr @ actions tr'"
  by (simp_all add: actions_def)

lemmas trace_simps = shutdown_calls_simps destroy_calls_simps clock_reads_simps
  list_results_simps sleeps_simps prints_simps actions_simps

lemma failed_simps:
  "failed [] = False"
  "failed (c # cs) = (snd c \<noteq> 0 \<or> failed cs)"
  "failed (cs @ cs') = (failed cs \<or> failed cs')"
  by (simp_all add: failed_def)

subsection \<open>The shutdown dispatch loop\<close>

lemma dispatch_shutdown_calls:
  "shutdown_calls (fst (dispatch_shutdown e i R a)) =
     map (\<lambda>p. (snd p, virsh_shutdown e (fst p) (snd p))) (enumerate i R)"
  by (induction R arbitrary: i a) (simp_all add: Let_def trace_simps)

lemma dispatch_shutdown_flag:
  "snd (dispatch_shutdown e i R a) = (a \<or> failed (shutdown_calls (fst (dispatch_shutdown e i R a))))"
  by (induction R arbitrary: i a) (auto simp: Let_def trace_simps failed_simps)

lemma dispatch_shutdown_actions:
  "actions (fst (dispatch_shutdown e i R a)) =
     map (\<lambda>p. VirshShutdown (snd p) (virsh_shutdown e (fst p) (snd p))) (enumerate i R)"
  by (induction R arbitrary: i a) (simp_all add: Let_def trace_simps)

lemma dispatch_shutdown_targets:
  "map fst (shutdown_calls (fst (dispatch_shutdown e i R a))) = R"
  by (induction R arbitrary: i a) (simp_all add: Let_def trace_simps)

text \<open>
  C2. The dispatch loop sends one \<^verbatim>\<open>virsh shutdown\<close> to every member of the running set
  \<open>R\<close>, in order and whatever the earlier return codes were: the machines named by the
  requests are exactly \<open>R\<close>, request number \<open>j\<close> gets the answer of the environment's
  \<open>j\<close>-th call, and the flag that comes out is the flag that went in or-ed with
  "some request of this loop returned non-zero".
\<close>

theorem dispatch_shutdown_attempts_all:
  "map fst (shutdown_calls (fst (dispatch_shutdown e i R a))) = R \<and>
   shutdown_calls (fst (dispatch_shutdown e i R a)) =
     map (\<lambda>p. (snd p, virsh_shutdown e (fst p) (snd p))) (enumerate i R) \<and>
   snd (dispatch_shutdown e i R a) =
     (a \<or> failed (shutdown_calls (fst (dispatch_shutdown e i R a))))"
  using dispatch_shutdown_flag [of e i R a] dispatch_shutdown_targets [of e i R a]
    dispatch_shutdown_calls [of e i R a]
  by simp

theorem dispatch_shutdown_attempts_all_witness:
  "map fst (shutdown_calls (fst (dispatch_shutdown env_dispatch_fails 0 [''a'', ''b'', ''c''] False)))
     = [''a'', ''b'', ''c''] \<and>
   shutdown_calls (fst (dispatch_shutdown env_dispatch_fails 0 [''a'', ''b'', ''c''] False))
     = [(''a'', 0), (''b'', 1), (''c'', 0)] \<and>
   snd (dispatch_shutdown env_dispatch_fails 0 [''a'', ''b'', ''c''] False) = True"
  using dispatch_shutdown_attempts_all [of env_dispatch_fails 0 "[''a'', ''b'', ''c'']" False]
  by (simp add: env_dispatch_fails_def enumerate_eq_zip failed_def)

subsection \<open>The force-terminate loop and one iteration of the poll loop\<close>

lemma force_terminate_calls:
  "destroy_calls (fst (force_terminate cfg e i R a)) =
     map (\<lambda>p. (snd p, virsh_destroy e (fst p) (snd p))) (enumerate i R)"
  by (induction R arbitrary: i a) (simp_all add: Let_def trace_simps)

lemma force_terminate_targets:
  "map fst (destroy_calls (fst (force_terminate cfg e i R a))) = R"
  by (induction R arbitrary: i a) (simp_all add: Let_def trace_simps)

lemma force_terminate_flag:
  "snd (force_terminate cfg e i R a) =
     (a \<or> failed (destroy_calls (fst (force_terminate cfg e i R a))))"
  by (induction R arbitrary: i a) (auto simp: Let_def trace_simps failed_simps)

lemma force_terminate_actions:
  "actions (fst (force_terminate cfg e i R a)) =
     map (\<lambda>p. VirshDestroy (snd p) (virsh_destroy e (fst p) (snd p))) (enumerate i R)"
  by (induction R arbitrary: i a) (simp_all add: Let_def trace_simps)

lemma zenity_progress_actions: "actions (fst (zenity_progress cfg t n)) = []"
  by (simp add: zenity_progress_def trace_simps split: sum.splits)

lemma zenity_progress_timed_out:
  "gt_rf t (timeout cfg) \<Longrightarrow> timeout cfg \<noteq> NInf \<Longrightarrow> snd (zenity_progress cfg t n) = None"
  by (cases "timeout cfg") (simp_all add: zenity_progress_def)

lemma zenity_progress_finite:
  "timeout cfg = Fin x \<Longrightarrow> x \<noteq> 0 \<Longrightarrow> snd (zenity_progress cfg t n) = None"
  by (simp add: zenity_progress_def)

lemma projections_of_actions:
  "shutdown_calls (actions tr) = shutdown_calls tr"
  "destroy_calls (actions tr) = destroy_calls tr"
  "clock_reads (actions tr) = clock_reads tr"
  "list_results (actions tr) = list_results tr"
  "sleeps (actions tr) = sleeps tr"
proof (induction tr)
  case Nil
  {
    case 1 show ?case by (simp add: trace_simps)
  next
    case 2 show ?case by (simp add: trace_simps)
  next
    case 3 show ?case by (simp add: trace_simps)
  next
    case 4 show ?case by (simp add: trace_simps)
  next
    case 5 show ?case by (simp add: trace_simps)
  }
next
  case (Cons ev tr)
  {
    case 1 show ?case using Cons.IH(1) by (cases ev) (simp_all add: trace_simps)
  next
    case 2 show ?case using Cons.IH(2) by (cases ev) (simp_all add: trace_simps)
  next
    case 3 show ?case using Cons.IH(3) by (cases ev) (simp_all add: trace_simps)
  next
    case 4 show ?case using Cons.IH(4) by (cases ev) (simp_all add: trace_simps)
  next
    case 5 show ?case using Cons.IH(5) by (cases ev) (simp_all add: trace_simps)
  }
qed

lemma deadline_passed_simps:
  "deadline_passed cfg t0 [] = False"
  "deadline_passed cfg t0 (evs @ evs') = (deadline_passed cfg t0 evs \<or> deadline_passed cfg t0 evs')"
  by (simp_all add: deadline_passed_def trace_simps)

lemma deadline_passed_actions: "deadline_passed cfg t0 (actions evs) = deadline_passed cfg t0 evs"
  by (simp add: deadline_passed_def projections_of_actions)

text \<open>What one iteration adds to each projection of the trace.\<close>

lemma force_terminate_no_polls:
  "clock_reads (fst (force_terminate cfg e i R a)) = []"
  "list_results (fst (force_terminate cfg e i R a)) = []"
  "sleeps (fst (force_terminate cfg e i R a)) = []"
  "shutdown_calls (fst (force_terminate cfg e i R a)) = []"
  by (induction R arbitrary: i a) (simp_all add: Let_def trace_simps)



lemma zenity_progress_silent:
  "shutdown_calls (fst (zenity_progress cfg t n)) = []"
  "destroy_calls (fst (zenity_progress cfg t n)) = []"
  "clock_reads (fst (zenity_progress cfg t n)) = []"
  "list_results (fst (zenity_progress cfg t n)) = []"
  "sleeps (fst (zenity_progress cfg t n)) = []"
  by (simp_all add: zenity_progress_def trace_simps split: sum.splits)

lemmas poll_body_unfold = poll_body_def Let_def trace_simps zenity_progress_actions
  zenity_progress_silent force_terminate_no_polls

lemma poll_body_shutdown_calls: "shutdown_calls (fst (poll_body cfg e t0 k R a)) = []"
  by (simp add: poll_body_unfold split: option.splits sum.splits)

lemma poll_body_Continue:
  assumes "snd (poll_body cfg e t0 k R a) = Continue vms"
  shows "\<not> gt_rf (clock e k - t0) (timeout cfg)"
    and "list_running_vms e k = Inr vms"
    and "py_sleep (interval cfg) = None"
    and "actions (fst (poll_body cfg e t0 k R a)) =
           [TimeNow (clock e k), Sleep (interval cfg), ListRunning (Inr vms)]"
    and "clock_reads (fst (poll_body cfg e t0 k R a)) = [clock e k]"
    and "destroy_calls (fst (poll_body cfg e t0 k R a)) = []"
    and "list_results (fst (poll_body cfg e t0 k R a)) = [Inr vms]"
    and "sleeps (fst (poll_body cfg e t0 k R a)) = [interval cfg]"
  using assms
  by (auto simp: poll_body_unfold split: option.splits if_splits sum.splits)

lemma poll_body_Break:
  assumes "snd (poll_body cfg e t0 k R a) = Break"
  shows "gt_rf (clock e k - t0) (timeout cfg)"
    and "kill cfg"
    and "\<not> snd (force_terminate cfg e 0 R a)"
    and "actions (fst (poll_body cfg e t0 k R a)) =
           TimeNow (clock e k) # actions (fst (force_terminate cfg e 0 R a))"
    and "clock_reads (fst (poll_body cfg e t0 k R a)) = [clock e k]"
    and "destroy_calls (fst (poll_body cfg e t0 k R a)) =
           destroy_calls (fst (force_terminate cfg e 0 R a))"
    and "list_results (fst (poll_body cfg e t0 k R a)) = []"
    and "sleeps (fst (poll_body cfg e t0 k R a)) = []"
  using assms
  by (auto simp: poll_body_unfold split: option.splits if_splits sum.splits)

lemma poll_body_Exit:
  assumes "snd (poll_body cfg e t0 k R a) = Stop (Exit c)"
  shows "gt_rf (clock e k - t0) (timeout cfg)"
    and "kill cfg \<Longrightarrow> c = 3 \<and> snd (force_terminate cfg e 0 R a) \<and>
           actions (fst (poll_body cfg e t0 k R a)) =
             TimeNow (clock e k) # actions (fst (force_terminate cfg e 0 R a)) \<and>
           destroy_calls (fst (poll_body cfg e t0 k R a)) =
             destroy_calls (fst (force_terminate cfg e 0 R a))"
    and "\<not> kill cfg \<Longrightarrow> c = 1 \<and>
           actions (fst (poll_body cfg e t0 k R a)) = [TimeNow (clock e k)] \<and>
           destroy_calls (fst (poll_body cfg e t0 k R a)) = []"
    and "clock_reads (fst (poll_body cfg e t0 k R a)) = [clock e k]"
    and "list_results (fst (poll_body cfg e t0 k R a)) = []"
    and "sleeps (fst (poll_body cfg e t0 k R a)) = []"
  using assms
  by (auto simp: poll_body_unfold split: option.splits if_splits sum.splits)

lemma poll_body_Uncaught:
  assumes "snd (poll_body cfg e t0 k R a) = Stop (Uncaught err)"
  shows "actions (fst (poll_body cfg e t0 k R a)) = [TimeNow (clock e k)] \<or>
         (\<not> gt_rf (clock e k - t0) (timeout cfg) \<and>
          actions (fst (poll_body cfg e t0 k R a)) =
            [TimeNow (clock e k), Sleep (interval cfg), ListRunning (Inl err)])"
    and "clock_reads (fst (poll_body cfg e t0 k R a)) = [clock e k]"
    and "destroy_calls (fst (poll_body cfg e t0 k R a)) = []"
    and "list_results (fst (poll_body cfg e t0 k R a)) = [] \<or>
         list_results (fst (poll_body cfg e t0 k R a)) = [Inl err]"
    and "(zenity cfg \<longrightarrow> timeout cfg \<noteq> NInf) \<Longrightarrow> \<not> gt_rf (clock e k - t0) (timeout cfg)"
  using assms
  by (auto simp: poll_body_unfold zenity_progress_timed_out
      split: option.splits if_splits sum.splits)


subsection \<open>The poll loop\<close>

lemma poll_loop_shutdown_calls: "shutdown_calls (snd (poll_loop n cfg e t0 k R a)) = []"
proof (induction n arbitrary: k R)
  case 0
  show ?case by (simp add: trace_simps)
next
  case (Suc n)
  show ?case
    by (cases "snd (poll_body cfg e t0 k R a)")
       (simp_all add: Let_def trace_simps poll_body_shutdown_calls Suc.IH)
qed


lemma deadline_passed_single:
  "clock_reads evs = [now] \<Longrightarrow> deadline_passed cfg t0 evs = gt_rf (now - t0) (timeout cfg)"
  by (simp add: deadline_passed_def)

lemma force_terminate_flag_False:
  "snd (force_terminate cfg e i R False) = failed (destroy_calls (fst (force_terminate cfg e i R False)))"
  using force_terminate_flag [of cfg e i R False] by simp


lemma poll_loop_end:
  "loop_end_ok cfg (fst (poll_loop n cfg e t0 k R False))
     (deadline_passed cfg t0 (snd (poll_loop n cfg e t0 k R False)))
     (destroy_calls (snd (poll_loop n cfg e t0 k R False)))"
proof (induction n arbitrary: k R)
  case 0
  show ?case by (simp add: trace_simps deadline_passed_simps loop_end_ok_def)
next
  case (Suc n)
  show ?case
  proof (cases "R = []")
    case True
    then show ?thesis by (simp add: trace_simps deadline_passed_simps loop_end_ok_def)
  next
    case False
    show ?thesis
    proof (cases "snd (poll_body cfg e t0 k R False)")
      case (Continue vms)
      note c = poll_body_Continue[OF Continue]
      have dp: "\<not> deadline_passed cfg t0 (fst (poll_body cfg e t0 k R False))"
        using c(1) c(5) by (simp add: deadline_passed_single)
      show ?thesis using Suc.IH [of "Suc k" vms] False Continue dp c(6)
        by (simp add: Let_def trace_simps deadline_passed_simps)
    next
      case Break
      note b = poll_body_Break[OF Break]
      have dp: "deadline_passed cfg t0 (fst (poll_body cfg e t0 k R False))"
        using b(1) b(5) by (simp add: deadline_passed_single)
      show ?thesis using False Break dp b(2,3,6)
        by (simp add: Let_def force_terminate_flag_False loop_end_ok_def)
    next
      case (Stop res)
      show ?thesis
      proof (cases res)
        case (Exit c)
        with Stop have s: "snd (poll_body cfg e t0 k R False) = Stop (Exit c)" by simp
        note x = poll_body_Exit[OF s]
        have dp: "deadline_passed cfg t0 (fst (poll_body cfg e t0 k R False))"
          using x(1) x(4) by (simp add: deadline_passed_single)
        show ?thesis using False s dp x(2,3)
          by (cases "kill cfg") (simp_all add: Let_def force_terminate_flag_False loop_end_ok_def)
      next
        case (Uncaught err)
        with Stop have s: "snd (poll_body cfg e t0 k R False) = Stop (Uncaught err)" by simp
        note u = poll_body_Uncaught[OF s]
        have dp: "(zenity cfg \<longrightarrow> timeout cfg \<noteq> NInf) \<Longrightarrow>
                    \<not> deadline_passed cfg t0 (fst (poll_body cfg e t0 k R False))"
          using u(2) u(5) by (simp add: deadline_passed_single)
        show ?thesis using False s dp u(3)
          by (simp add: Let_def loop_end_ok_def)
      qed
    qed
  qed
qed


subsection \<open>The whole script\<close>

lemma dispatch_shutdown_silent:
  "destroy_calls (fst (dispatch_shutdown e i R a)) = []"
  "clock_reads (fst (dispatch_shutdown e i R a)) = []"
  "list_results (fst (dispatch_shutdown e i R a)) = []"
  "sleeps (fst (dispatch_shutdown e i R a)) = []"
  by (induction R arbitrary: i a) (simp_all add: Let_def trace_simps)

lemma dispatch_shutdown_Nil: "dispatch_shutdown e i [] a = ([], a)"
  by simp

text \<open>The three ways through the script.\<close>

lemma run_list_failed:
  assumes "list_running_vms e 0 = Inl err"
  shows "run n cfg e = (Some (Uncaught err), [ListRunning (Inl err)])"
  using assms by (simp add: run_def)

lemma run_dispatch_failed:
  assumes "list_running_vms e 0 = Inr R" and "snd (dispatch_shutdown e 0 R False)"
  shows "fst (run n cfg e) = Some (Exit 3)"
    and "shutdown_calls (snd (run n cfg e)) = shutdown_calls (fst (dispatch_shutdown e 0 R False))"
    and "destroy_calls (snd (run n cfg e)) = []"
    and "clock_reads (snd (run n cfg e)) = []"
    and "list_results (snd (run n cfg e)) = [Inr R]"
    and "sleeps (snd (run n cfg e)) = []"
  using assms by (simp_all add: run_def Let_def trace_simps dispatch_shutdown_silent)

lemma run_polling:
  assumes "list_running_vms e 0 = Inr R" and "\<not> snd (dispatch_shutdown e 0 R False)"
  shows "fst (run n cfg e) =
           (case fst (poll_loop n cfg e (clock e 0) 1 R False) of
              None \<Rightarrow> None
            | Some LoopDone \<Rightarrow> Some (Exit 0)
            | Some (LoopExit res) \<Rightarrow> Some res)"
    and "shutdown_calls (snd (run n cfg e)) = shutdown_calls (fst (dispatch_shutdown e 0 R False))"
    and "destroy_calls (snd (run n cfg e)) = destroy_calls (snd (poll_loop n cfg e (clock e 0) 1 R False))"
    and "clock_reads (snd (run n cfg e)) =
           clock e 0 # clock_reads (snd (poll_loop n cfg e (clock e 0) 1 R False))"
    and "list_results (snd (run n cfg e)) =
           Inr R # list_results (snd (poll_loop n cfg e (clock e 0) 1 R False))"
    and "sleeps (snd (run n cfg e)) = sleeps (snd (poll_loop n cfg e (clock e 0) 1 R False))"
  using assms
  by (simp_all add: run_def Let_def trace_simps dispatch_shutdown_silent poll_loop_shutdown_calls
      split: option.splits loop_end.splits)

lemma run_polling_timed_out:
  assumes "list_running_vms e 0 = Inr R" and "\<not> snd (dispatch_shutdown e 0 R False)"
  shows "timed_out cfg (snd (run n cfg e)) =
           deadline_passed cfg (clock e 0) (snd (poll_loop n cfg e (clock e 0) 1 R False))"
  by (simp add: timed_out_def deadline_passed_def run_polling(4)[OF assms])

subsection \<open>Concrete runs\<close>

lemmas run_eval = run_def list_running_vms_def strip_def is_space_def poll_body_def
  zenity_progress_def Let_def eval_nat_numeral

lemma run_stop_after_2:
  "run 5 cfg_t5 env_stop_after_2 =
    (Some (Exit 0),
      [ListRunning (Inr [''a'', ''b'', ''c'']),
       Print (MsgSummary 3 (Fin 5) False), VirshShutdown ''a'' 0,
       VirshShutdown ''b'' 0, VirshShutdown ''c'' 0, TimeNow 0, TimeNow 1,
       Sleep (Fin 1), ListRunning (Inr [''a'', ''b'', ''c'']), TimeNow 2,
       Sleep (Fin 1), ListRunning (Inr []), Print (MsgAllDown False)])"
  by (simp add: run_eval cfg_t5_def env_stop_after_2_def)

lemma run_no_kill:
  "run 5 cfg_t2 env_never_stop = (Some (Exit 1),
    [ListRunning (Inr [''a'', ''b'']), Print (MsgSummary 2 (Fin 2) False),
     VirshShutdown ''a'' 0, VirshShutdown ''b'' 0, TimeNow 0, TimeNow 1, Sleep (Fin 1),
     ListRunning (Inr [''a'', ''b'']), TimeNow 2, Sleep (Fin 1),
     ListRunning (Inr [''a'', ''b'']), TimeNow 3, Print (MsgStillWaiting 3 2),
     Print (MsgVmList [''a'', ''b'']), Print (MsgTimeout (Fin 2))])"
  by (simp add: run_eval cfg_t2_def env_never_stop_def)

lemma run_kill:
  "run 5 cfg_t2_kill env_never_stop = (Some (Exit 0),
    [ListRunning (Inr [''a'', ''b'']), Print (MsgSummary 2 (Fin 2) True),
     VirshShutdown ''a'' 0, VirshShutdown ''b'' 0, TimeNow 0, TimeNow 1,
     Sleep (Fin 1), ListRunning (Inr [''a'', ''b'']), TimeNow 2,
     Sleep (Fin 1), ListRunning (Inr [''a'', ''b'']), TimeNow 3,
     Print (MsgStillWaiting 3 2), Print (MsgVmList [''a'', ''b'']),
     Print (MsgTimeoutKill (Fin 2)), VirshDestroy ''a'' 0,
     VirshDestroy ''b'' 0, Print (MsgAllDown False)])"
  by (simp add: run_eval cfg_t2_kill_def env_never_stop_def)

lemma run_kill_fails:
  "run 5 cfg_t2_kill env_destroy_fails = (Some (Exit 3),
    [ListRunning (Inr [''a'', ''b'']), Print (MsgSummary 2 (Fin 2) True),
     VirshShutdown ''a'' 0, VirshShutdown ''b'' 0, TimeNow 0, TimeNow 1,
     Sleep (Fin 1), ListRunning (Inr [''a'', ''b'']), TimeNow 2,
     Sleep (Fin 1), ListRunning (Inr [''a'', ''b'']), TimeNow 3,
     Print (MsgStillWaiting 3 2), Print (MsgVmList [''a'', ''b'']),
     Print (MsgTimeoutKill (Fin 2)), VirshDestroy ''a'' 1,
     VirshDestroy ''b'' 0, Print MsgDestroyFailed])"
  by (simp add: run_eval cfg_t2_kill_def env_destroy_fails_def)

lemma run_dispatch_fails:
  "run 5 cfg_default env_dispatch_fails = (Some (Exit 3),
    [ListRunning (Inr [''a'', ''b'', ''c'']), Print (MsgSummary 3 (Fin 30) False),
     VirshShutdown ''a'' 0, VirshShutdown ''b'' 1, Print (MsgShutdownError ''b'' 1),
     VirshShutdown ''c'' 0, Print MsgDispatchFailed])"
  by (simp add: run_eval cfg_default_def env_dispatch_fails_def)

lemmas flag_eval = trace_simps failed_simps timed_out_def spec_exit_code_def

subsection \<open>Exit codes\<close>



subsection \<open>A failed dispatch aborts the run\<close>

lemma ex_less_Suc_shift: "(\<exists>j<Suc m. P j) = (P 0 \<or> (\<exists>j<m. P (Suc j)))"
  by (auto simp: less_Suc_eq_0_disj)

lemma dispatch_shutdown_flag_env:
  "snd (dispatch_shutdown e i R a) = (a \<or> (\<exists>j<length R. virsh_shutdown e (i + j) (R ! j) \<noteq> 0))"
proof (induction R arbitrary: i a)
  case Nil
  show ?case by simp
next
  case (Cons vm vms)
  show ?case
    by (simp add: Let_def Cons.IH ex_less_Suc_shift)
qed

text \<open>
  C3. If the first inventory is \<open>R\<close> and some \<^verbatim>\<open>virsh shutdown\<close> of the dispatch loop
  returns non-zero, the run ends with exit code 3 whatever the environment would have
  answered later and however much fuel the loop is given: the clock is never read (so
  no iteration of the poll loop starts, and not even \<^verbatim>\<open>t0\<close> is taken), nothing sleeps,
  the inventory is queried only the one time before dispatch, and no \<^verbatim>\<open>virsh destroy\<close>
  is sent.
\<close>

theorem dispatch_failure_aborts:
  assumes "list_running_vms e 0 = Inr R"
    and "\<exists>j<length R. virsh_shutdown e j (R ! j) \<noteq> 0"
  shows "fst (run n cfg e) = Some (Exit 3) \<and>
         clock_reads (snd (run n cfg e)) = [] \<and>
         sleeps (snd (run n cfg e)) = [] \<and>
         list_results (snd (run n cfg e)) = [Inr R] \<and>
         destroy_calls (snd (run n cfg e)) = []"
proof -
  have "snd (dispatch_shutdown e 0 R False)"
    using assms(2) by (simp add: dispatch_shutdown_flag_env)
  from run_dispatch_failed[OF assms(1) this, of n cfg] show ?thesis by simp
qed

lemma list_env_dispatch_fails: "list_running_vms env_dispatch_fails 0 = Inr [''a'', ''b'', ''c'']"
  by (simp add: run_eval env_dispatch_fails_def)

theorem dispatch_failure_aborts_witness:
  "list_running_vms env_dispatch_fails 0 = Inr [''a'', ''b'', ''c''] \<and>
   (\<exists>j<length [''a'', ''b'', ''c''].
      virsh_shutdown env_dispatch_fails j ([''a'', ''b'', ''c''] ! j) \<noteq> 0) \<and>
   fst (run 5 cfg_default env_dispatch_fails) = Some (Exit 3) \<and>
   clock_reads (snd (run 5 cfg_default env_dispatch_fails)) = [] \<and>
   sleeps (snd (run 5 cfg_default env_dispatch_fails)) = [] \<and>
   list_results (snd (run 5 cfg_default env_dispatch_fails)) = [Inr [''a'', ''b'', ''c'']] \<and>
   destroy_calls (snd (run 5 cfg_default env_dispatch_fails)) = []"
proof -
  have h: "\<exists>j<length [''a'', ''b'', ''c''].
             virsh_shutdown env_dispatch_fails j ([''a'', ''b'', ''c''] ! j) \<noteq> 0"
    by (rule exI [of _ 1]) (simp add: env_dispatch_fails_def)
  from dispatch_failure_aborts [OF list_env_dispatch_fails h, of 5 cfg_default]
    list_env_dispatch_fails h
  show ?thesis by blast
qed

subsection \<open>An empty running set ends the run successfully\<close>

lemma poll_loop_Nil: "poll_loop n cfg e t0 k [] a = (Some LoopDone, [])"
  by (cases n) simp_all

lemma poll_loop_empty_seen:
  assumes "Inr [] \<in> set (list_results (snd (poll_loop n cfg e t0 k R a))) \<or> R = []"
  shows "fst (poll_loop n cfg e t0 k R a) = Some LoopDone \<and>
         destroy_calls (snd (poll_loop n cfg e t0 k R a)) = [] \<and>
         \<not> deadline_passed cfg t0 (snd (poll_loop n cfg e t0 k R a))"
  using assms
proof (induction n arbitrary: k R)
  case 0
  then show ?case by (cases "R = []") (simp_all add: trace_simps deadline_passed_simps)
next
  case (Suc n)
  show ?case
  proof (cases "R = []")
    case True
    then show ?thesis by (simp add: trace_simps deadline_passed_simps)
  next
    case False
    show ?thesis
    proof (cases "snd (poll_body cfg e t0 k R a)")
      case (Continue vms)
      note c = poll_body_Continue[OF Continue]
      have dp: "\<not> deadline_passed cfg t0 (fst (poll_body cfg e t0 k R a))"
        using c(1) c(5) by (simp add: deadline_passed_single)
      have "Inr [] \<in> set (list_results (snd (poll_loop n cfg e t0 (Suc k) vms a))) \<or> vms = []"
        using Suc.prems False Continue c(7) by (auto simp: Let_def trace_simps)
      from Suc.IH [OF this] show ?thesis using False Continue dp c(6)
        by (simp add: Let_def trace_simps deadline_passed_simps)
    next
      case Break
      note b = poll_body_Break[OF Break]
      show ?thesis using Suc.prems False Break b(7) by (simp add: Let_def)
    next
      case (Stop res)
      show ?thesis
      proof (cases res)
        case (Exit c)
        with Stop have s: "snd (poll_body cfg e t0 k R a) = Stop (Exit c)" by simp
        show ?thesis using Suc.prems False s poll_body_Exit(5)[OF s] by (simp add: Let_def)
      next
        case (Uncaught err)
        with Stop have s: "snd (poll_body cfg e t0 k R a) = Stop (Uncaught err)" by simp
        show ?thesis using Suc.prems False s poll_body_Uncaught(4)[OF s] by (auto simp: Let_def)
      qed
    qed
  qed
qed

text \<open>
  C4. If an inventory query of the run returns the empty set, be it the query before
  dispatch or one made by the poll loop, the run ends with exit code 0, no
  \<^verbatim>\<open>virsh destroy\<close> is ever sent, and no poll of the run has seen the deadline passed.
  An empty inventory is never an error: the loop test \<^verbatim>\<open>while running_vms\<close> fails and
  the script falls through to \<^verbatim>\<open>exit(0)\<close>. (The poll loop queries again only after an
  iteration whose elapsed time did not exceed the timeout, so every empty answer it
  gets is one that came before the deadline.)
\<close>

theorem empty_running_set_is_success:
  assumes "Inr [] \<in> set (list_results (snd (run n cfg e)))"
  shows "fst (run n cfg e) = Some (Exit 0) \<and>
         destroy_calls (snd (run n cfg e)) = [] \<and>
         \<not> timed_out cfg (snd (run n cfg e))"
proof (cases "list_running_vms e 0")
  case (Inl err)
  from run_list_failed[OF this, of n cfg] assms show ?thesis by (simp add: trace_simps)
next
  case (Inr R)
  show ?thesis
  proof (cases "snd (dispatch_shutdown e 0 R False)")
    case True
    then have "R \<noteq> []" by auto
    with run_dispatch_failed(5)[OF Inr True, of n cfg] assms show ?thesis by simp
  next
    case False
    have "Inr [] \<in> set (list_results (snd (poll_loop n cfg e (clock e 0) 1 R False))) \<or> R = []"
      using run_polling(5)[OF Inr False, of n cfg] assms by auto
    from poll_loop_empty_seen[OF this] show ?thesis
      using run_polling(1,3)[OF Inr False, of n cfg] run_polling_timed_out[OF Inr False, of cfg n]
      by simp
  qed
qed

theorem empty_running_set_is_success_witness:
  "Inr [] \<in> set (list_results (snd (run 5 cfg_t5 env_stop_after_2))) \<and>
   fst (run 5 cfg_t5 env_stop_after_2) = Some (Exit 0) \<and>
   destroy_calls (snd (run 5 cfg_t5 env_stop_after_2)) = [] \<and>
   \<not> timed_out cfg_t5 (snd (run 5 cfg_t5 env_stop_after_2))"
proof -
  have h: "Inr [] \<in> set (list_results (snd (run 5 cfg_t5 env_stop_after_2)))"
    by (simp add: run_stop_after_2 trace_simps)
  from empty_running_set_is_success [OF h] h show ?thesis by blast
qed

subsection \<open>Timeout with forcing disabled\<close>

text \<open>
  C5. With forcing disabled no \<^verbatim>\<open>virsh destroy\<close> is sent at any point of any run, and
  a run in which some poll reads an elapsed time greater than the timeout ends with
  exit code 1. (The side condition on the timeout only excludes \<^verbatim>\<open>--timeout=-inf\<close> together
  with \<^verbatim>\<open>--zenity\<close>, where the progress line raises before the deadline test is reached.)
\<close>

theorem timeout_without_force:
  assumes "\<not> kill cfg" and "zenity cfg \<longrightarrow> timeout cfg \<noteq> NInf"
  shows "destroy_calls (snd (run n cfg e)) = [] \<and>
         (timed_out cfg (snd (run n cfg e)) \<longrightarrow> fst (run n cfg e) = Some (Exit 1))"
proof (cases "list_running_vms e 0")
  case (Inl err)
  from run_list_failed[OF this, of n cfg] show ?thesis by (simp add: trace_simps timed_out_def)
next
  case (Inr R)
  show ?thesis
  proof (cases "snd (dispatch_shutdown e 0 R False)")
    case True
    from run_dispatch_failed(3,4)[OF Inr True, of n cfg] show ?thesis by (simp add: timed_out_def)
  next
    case False
    from poll_loop_end [of cfg n e "clock e 0" 1 R] assms show ?thesis
      unfolding run_polling(3)[OF Inr False, of n cfg] run_polling_timed_out[OF Inr False, of cfg n]
        run_polling(1)[OF Inr False, of n cfg]
      by (auto simp: loop_end_ok_def split: option.splits loop_end.splits result.splits if_splits)
  qed
qed

theorem timeout_without_force_witness:
  "\<not> kill cfg_t2 \<and> timeout cfg_t2 \<noteq> NInf \<and>
   destroy_calls (snd (run 5 cfg_t2 env_never_stop)) = [] \<and>
   timed_out cfg_t2 (snd (run 5 cfg_t2 env_never_stop)) \<and>
   fst (run 5 cfg_t2 env_never_stop) = Some (Exit 1)"
proof -
  have k: "\<not> kill cfg_t2" and f: "timeout cfg_t2 \<noteq> NInf"
    by (simp_all add: cfg_t2_def)
  from f have z: "zenity cfg_t2 \<longrightarrow> timeout cfg_t2 \<noteq> NInf" by simp
  have t: "timed_out cfg_t2 (snd (run 5 cfg_t2 env_never_stop))"
    unfolding run_no_kill by (simp add: timed_out_def trace_simps cfg_t2_def)
  from timeout_without_force [OF k z, of 5 env_never_stop] k f t show ?thesis by blast
qed

subsection \<open>The force-termination phase\<close>

lemma no_poll_after_destroy_append:
  "no_poll_after_destroy seen (xs @ ys) =
     (no_poll_after_destroy seen xs \<and> no_poll_after_destroy (seen \<or> destroy_calls xs \<noteq> []) ys)"
proof (induction xs arbitrary: seen)
  case Nil
  show ?case by (simp add: trace_simps)
next
  case (Cons ev xs)
  show ?case by (cases ev) (auto simp: Cons.IH trace_simps)
qed

lemma no_poll_no_destroy:
  "destroy_calls xs = [] \<Longrightarrow> no_poll_after_destroy False xs"
proof (induction xs)
  case Nil
  show ?case by simp
next
  case (Cons ev xs)
  then show ?case by (cases ev) (simp_all add: trace_simps)
qed

lemma no_poll_no_polls:
  "clock_reads xs = [] \<Longrightarrow> list_results xs = [] \<Longrightarrow> sleeps xs = [] \<Longrightarrow>
   no_poll_after_destroy seen xs"
proof (induction xs arbitrary: seen)
  case Nil
  show ?case by simp
next
  case (Cons ev xs)
  then show ?case by (cases ev) (simp_all add: trace_simps)
qed

lemma force_terminate_no_poll_after: "no_poll_after_destroy seen (fst (force_terminate cfg e i R a))"
  by (rule no_poll_no_polls) (simp_all add: force_terminate_no_polls)

lemma zenity_progress_no_poll_after: "no_poll_after_destroy seen (fst (zenity_progress cfg t n))"
  by (rule no_poll_no_polls) (simp_all add: zenity_progress_silent)

lemma poll_body_no_poll_after: "no_poll_after_destroy False (fst (poll_body cfg e t0 k R a))"
  by (simp add: poll_body_unfold no_poll_after_destroy_append force_terminate_no_poll_after
      zenity_progress_no_poll_after split: option.splits sum.splits)


lemma poll_loop_no_poll_after:
  "no_poll_after_destroy False (snd (poll_loop n cfg e t0 k R a))"
proof (induction n arbitrary: k R)
  case 0
  show ?case by simp
next
  case (Suc n)
  show ?case
  proof (cases "snd (poll_body cfg e t0 k R a)")
    case (Continue vms)
    then show ?thesis
      using poll_body_Continue(6)[OF Continue] poll_body_no_poll_after [of cfg e t0 k R a]
        Suc.IH [of "Suc k" vms]
      by (simp add: Let_def no_poll_after_destroy_append)
  next
    case Break
    then show ?thesis using poll_body_no_poll_after [of cfg e t0 k R a] by (simp add: Let_def)
  next
    case (Stop res)
    then show ?thesis using poll_body_no_poll_after [of cfg e t0 k R a] by (simp add: Let_def)
  qed
qed

lemma run_no_poll_after: "no_poll_after_destroy False (snd (run n cfg e))"
proof (cases "list_running_vms e 0")
  case (Inl err)
  then show ?thesis by (simp add: run_def)
next
  case (Inr R)
  have d: "no_poll_after_destroy False (fst (dispatch_shutdown e 0 R False))"
    by (rule no_poll_no_destroy) (simp add: dispatch_shutdown_silent)
  show ?thesis using Inr d poll_loop_no_poll_after [of n cfg e "clock e 0" 1 R False]
    by (simp add: run_def Let_def no_poll_after_destroy_append dispatch_shutdown_silent trace_simps
        split: option.splits loop_end.splits)
qed

lemma enumerate_eq_Nil: "(enumerate i xs = []) = (xs = [])"
  by (cases xs) simp_all

lemma loop_end_ok_forced:
  assumes "loop_end_ok cfg r True ds" and "kill cfg" and "zenity cfg \<longrightarrow> timeout cfg \<noteq> NInf"
  shows "(case r of None \<Rightarrow> None | Some LoopDone \<Rightarrow> Some (Exit 0) | Some (LoopExit res) \<Rightarrow> Some res)
           = Some (Exit (if failed ds then 3 else 0))"
  using assms
  by (auto simp: loop_end_ok_def split: option.splits loop_end.splits result.splits if_splits)

lemma last_listed_from_Cons:
  "list_results xs = [Inr vms] \<Longrightarrow> last_listed_from R (xs @ ys) = last_listed_from vms ys"
  by (cases "rev (list_results ys)") (simp_all add: last_listed_from_def trace_simps)

lemma last_listed_from_none: "list_results xs = [] \<Longrightarrow> last_listed_from R xs = R"
  by (simp add: last_listed_from_def)

text \<open>The destroy requests of the loop, if any, go to the set listed last.\<close>

lemma poll_loop_destroy_targets:
  "destroy_calls (snd (poll_loop n cfg e t0 k R a)) = [] \<or>
   destroy_calls (snd (poll_loop n cfg e t0 k R a)) =
     map (\<lambda>p. (snd p, virsh_destroy e (fst p) (snd p)))
       (enumerate 0 (last_listed_from R (snd (poll_loop n cfg e t0 k R a))))"
proof (induction n arbitrary: k R)
  case 0
  show ?case by (simp add: trace_simps)
next
  case (Suc n)
  show ?case
  proof (cases "R = []")
    case True
    then show ?thesis by (simp add: trace_simps)
  next
    case False
    show ?thesis
    proof (cases "snd (poll_body cfg e t0 k R a)")
      case (Continue vms)
      note c = poll_body_Continue[OF Continue]
      show ?thesis using Suc.IH [of "Suc k" vms] False Continue c(6) last_listed_from_Cons[OF c(7)]
        by (simp add: Let_def trace_simps)
    next
      case Break
      note b = poll_body_Break[OF Break]
      show ?thesis using False Break b(6) last_listed_from_none[OF b(7)]
        by (simp add: Let_def force_terminate_calls)
    next
      case (Stop res)
      show ?thesis
      proof (cases res)
        case (Exit c)
        with Stop have s: "snd (poll_body cfg e t0 k R a) = Stop (Exit c)" by simp
        note x = poll_body_Exit[OF s]
        show ?thesis using False s x(2,3) last_listed_from_none[OF x(5)]
          by (cases "kill cfg") (simp_all add: Let_def force_terminate_calls)
      next
        case (Uncaught err)
        with Stop have s: "snd (poll_body cfg e t0 k R a) = Stop (Uncaught err)" by simp
        show ?thesis using False s poll_body_Uncaught(3)[OF s] by (simp add: Let_def)
      qed
    qed
  qed
qed

text \<open>With forcing enabled, a deadline seen passed means the destroy requests were made.\<close>

lemma poll_loop_forced:
  assumes "kill cfg" and "zenity cfg \<longrightarrow> timeout cfg \<noteq> NInf"
    and "deadline_passed cfg t0 (snd (poll_loop n cfg e t0 k R a))"
  shows "destroy_calls (snd (poll_loop n cfg e t0 k R a)) \<noteq> []"
  using assms(3)
proof (induction n arbitrary: k R)
  case 0
  then show ?case by (cases "R = []") (simp_all add: deadline_passed_simps)
next
  case (Suc n)
  show ?case
  proof (cases "R = []")
    case True
    with Suc.prems show ?thesis by (simp add: deadline_passed_simps)
  next
    case False
    show ?thesis
    proof (cases "snd (poll_body cfg e t0 k R a)")
      case (Continue vms)
      note c = poll_body_Continue[OF Continue]
      have dp: "\<not> deadline_passed cfg t0 (fst (poll_body cfg e t0 k R a))"
        using c(1) c(5) by (simp add: deadline_passed_single)
      have "deadline_passed cfg t0 (snd (poll_loop n cfg e t0 (Suc k) vms a))"
        using Suc.prems False Continue dp by (simp add: Let_def deadline_passed_simps)
      from Suc.IH [OF this] show ?thesis using False Continue by (simp add: Let_def trace_simps)
    next
      case Break
      note b = poll_body_Break[OF Break]
      show ?thesis using False Break b(6)
        by (simp add: Let_def force_terminate_calls enumerate_eq_Nil)
    next
      case (Stop res)
      show ?thesis
      proof (cases res)
        case (Exit c)
        with Stop have s: "snd (poll_body cfg e t0 k R a) = Stop (Exit c)" by simp
        note x = poll_body_Exit[OF s]
        show ?thesis using False s x(2) assms(1)
          by (simp add: Let_def force_terminate_calls enumerate_eq_Nil)
      next
        case (Uncaught err)
        with Stop have s: "snd (poll_body cfg e t0 k R a) = Stop (Uncaught err)" by simp
        note u = poll_body_Uncaught[OF s]
        have "\<not> deadline_passed cfg t0 (fst (poll_body cfg e t0 k R a))"
          using u(2) u(5) assms(2) by (simp add: deadline_passed_single)
        then show ?thesis using Suc.prems False s by (simp add: Let_def)
      qed
    qed
  qed
qed

lemma run_last_listed:
  assumes "list_running_vms e 0 = Inr R" and "\<not> snd (dispatch_shutdown e 0 R False)"
  shows "last_listed (snd (run n cfg e)) =
           last_listed_from R (snd (poll_loop n cfg e (clock e 0) 1 R False))"
  using run_polling(5)[OF assms, of n cfg]
  by (cases "rev (list_results (snd (poll_loop n cfg e (clock e 0) 1 R False)))")
     (simp_all add: last_listed_def last_listed_from_def)

lemma run_destroy_targets:
  "destroy_calls (snd (run n cfg e)) = [] \<or>
   destroy_calls (snd (run n cfg e)) =
     map (\<lambda>p. (snd p, virsh_destroy e (fst p) (snd p))) (enumerate 0 (last_listed (snd (run n cfg e))))"
proof (cases "list_running_vms e 0")
  case (Inl err)
  from run_list_failed[OF this, of n cfg] show ?thesis by (simp add: trace_simps)
next
  case (Inr R)
  show ?thesis
  proof (cases "snd (dispatch_shutdown e 0 R False)")
    case True
    from run_dispatch_failed(3)[OF Inr True, of n cfg] show ?thesis by simp
  next
    case False
    show ?thesis
      unfolding run_polling(3)[OF Inr False, of n cfg] run_last_listed[OF Inr False, of n cfg]
      by (rule poll_loop_destroy_targets)
  qed
qed

text \<open>
  C6. With forcing enabled, a run in which some poll reads an elapsed time greater than
  the timeout sends its \<^verbatim>\<open>virsh destroy\<close> requests to exactly the machines of the last
  inventory (the still-running set, which is not empty), one request per machine and in
  order, request \<open>j\<close> getting the \<open>j\<close>-th answer of the environment whatever the earlier
  answers were; the run then ends with exit code 3 if some request returned non-zero
  and 0 otherwise. In every run, once a \<^verbatim>\<open>virsh destroy\<close> has been sent there is no
  further inventory query, clock reading or sleep. (The side condition on the timeout
  only excludes \<^verbatim>\<open>--timeout=-inf\<close> together with \<^verbatim>\<open>--zenity\<close>.)
\<close>

theorem force_phase_attempts_all:
  assumes "kill cfg" and "zenity cfg \<longrightarrow> timeout cfg \<noteq> NInf"
  shows "(timed_out cfg (snd (run n cfg e)) \<longrightarrow>
            last_listed (snd (run n cfg e)) \<noteq> [] \<and>
            destroy_calls (snd (run n cfg e)) =
              map (\<lambda>p. (snd p, virsh_destroy e (fst p) (snd p)))
                (enumerate 0 (last_listed (snd (run n cfg e)))) \<and>
            fst (run n cfg e) =
              Some (Exit (if failed (destroy_calls (snd (run n cfg e))) then 3 else 0))) \<and>
         no_poll_after_destroy False (snd (run n cfg e))"
proof (cases "list_running_vms e 0")
  case (Inl err)
  from run_list_failed[OF this, of n cfg] show ?thesis by (simp add: trace_simps timed_out_def)
next
  case (Inr R)
  show ?thesis
  proof (cases "snd (dispatch_shutdown e 0 R False)")
    case True
    from run_dispatch_failed(4)[OF Inr True, of n cfg] run_no_poll_after [of n cfg e]
    show ?thesis by (simp add: timed_out_def)
  next
    case False
    show ?thesis
    proof (cases "timed_out cfg (snd (run n cfg e))")
      case no: False
      then show ?thesis using run_no_poll_after [of n cfg e] by simp
    next
      case yes: True
      then have dp: "deadline_passed cfg (clock e 0) (snd (poll_loop n cfg e (clock e 0) 1 R False))"
        by (simp add: run_polling_timed_out[OF Inr False])
      have ne: "destroy_calls (snd (run n cfg e)) \<noteq> []"
        using poll_loop_forced[OF assms dp] by (simp add: run_polling(3)[OF Inr False])
      with run_destroy_targets [of n cfg e] have calls: "destroy_calls (snd (run n cfg e)) =
          map (\<lambda>p. (snd p, virsh_destroy e (fst p) (snd p)))
            (enumerate 0 (last_listed (snd (run n cfg e))))" by blast
      have nonempty: "last_listed (snd (run n cfg e)) \<noteq> []"
      proof
        assume "last_listed (snd (run n cfg e)) = []"
        with calls ne show False by simp
      qed
      have ok: "loop_end_ok cfg (fst (poll_loop n cfg e (clock e 0) 1 R False)) True
              (destroy_calls (snd (run n cfg e)))"
        using poll_loop_end [of cfg n e "clock e 0" 1 R] dp
        by (simp add: run_polling(3)[OF Inr False])
      have res: "fst (run n cfg e) =
              Some (Exit (if failed (destroy_calls (snd (run n cfg e))) then 3 else 0))"
        unfolding run_polling(1)[OF Inr False, of n cfg]
        by (rule loop_end_ok_forced[OF ok assms])
      from calls nonempty res run_no_poll_after [of n cfg e] show ?thesis by blast
    qed
  qed
qed


theorem force_phase_attempts_all_witness:
  "kill cfg_t2_kill \<and> timeout cfg_t2_kill \<noteq> NInf \<and>
   timed_out cfg_t2_kill (snd (run 5 cfg_t2_kill env_destroy_fails)) \<and>
   last_listed (snd (run 5 cfg_t2_kill env_destroy_fails)) = [''a'', ''b''] \<and>
   destroy_calls (snd (run 5 cfg_t2_kill env_destroy_fails)) = [(''a'', 1), (''b'', 0)] \<and>
   fst (run 5 cfg_t2_kill env_destroy_fails) =
     Some (Exit (if failed (destroy_calls (snd (run 5 cfg_t2_kill env_destroy_fails))) then 3 else 0)) \<and>
   no_poll_after_destroy False (snd (run 5 cfg_t2_kill env_destroy_fails))"
proof -
  have k: "kill cfg_t2_kill" and f: "timeout cfg_t2_kill \<noteq> NInf"
    by (simp_all add: cfg_t2_kill_def)
  from f have z: "zenity cfg_t2_kill \<longrightarrow> timeout cfg_t2_kill \<noteq> NInf" by simp
  have t: "timed_out cfg_t2_kill (snd (run 5 cfg_t2_kill env_destroy_fails))"
    unfolding run_kill_fails by (simp add: timed_out_def trace_simps cfg_t2_kill_def)
  have l: "last_listed (snd (run 5 cfg_t2_kill env_destroy_fails)) = [''a'', ''b'']"
    unfolding run_kill_fails by (simp add: last_listed_def last_listed_from_def trace_simps)
  have d: "destroy_calls (snd (run 5 cfg_t2_kill env_destroy_fails)) = [(''a'', 1), (''b'', 0)]"
    unfolding run_kill_fails by (simp add: trace_simps)
  from force_phase_attempts_all [OF k z, of 5 env_destroy_fails] k f t l d
  show ?thesis by blast
qed

subsection \<open>The deadline is tested before sleeping\<close>






lemma run_polling_actions:
  assumes "list_running_vms e 0 = Inr R" and "\<not> snd (dispatch_shutdown e 0 R False)"
  shows "actions (snd (run n cfg e)) =
           ListRunning (Inr R) # actions (fst (dispatch_shutdown e 0 R False)) @
           TimeNow (clock e 0) # actions (snd (poll_loop n cfg e (clock e 0) 1 R False))"
  using assms
  by (simp add: run_def Let_def trace_simps split: option.splits loop_end.splits)




lemma poll_body_continues:
  assumes "\<not> gt_rf (clock e k - t0) (timeout cfg)"
    and "zenity cfg \<longrightarrow> snd (zenity_progress cfg (clock e k - t0) (length R)) = None"
    and "py_sleep (interval cfg) = None"
    and "list_running_vms e k = Inr vms"
  shows "snd (poll_body cfg e t0 k R a) = Continue vms"
    and "sleeps (fst (poll_body cfg e t0 k R a)) = [interval cfg]"
    and "list_results (fst (poll_body cfg e t0 k R a)) = [Inr vms]"
  using assms
  by (auto simp: poll_body_unfold split: option.splits sum.splits)






subsection \<open>Graceful shutdown is requested only in the dispatch phase\<close>

lemma dropWhile_no_clock:
  "clock_reads xs = [] \<Longrightarrow>
   dropWhile (\<lambda>ev. clock_of ev = []) (xs @ ys) = dropWhile (\<lambda>ev. clock_of ev = []) ys"
proof (induction xs)
  case Nil
  show ?case by simp
next
  case (Cons ev xs)
  then show ?case by (cases ev) (simp_all add: trace_simps)
qed

lemma run_no_shutdown_after_clock:
  "shutdown_calls (dropWhile (\<lambda>ev. clock_of ev = []) (snd (run n cfg e))) = []"
proof (cases "list_running_vms e 0")
  case (Inl err)
  from run_list_failed[OF this, of n cfg] show ?thesis by (simp add: trace_simps)
next
  case (Inr R)
  show ?thesis
  proof (cases "snd (dispatch_shutdown e 0 R False)")
    case True
    have "dropWhile (\<lambda>ev. clock_of ev = []) (snd (run n cfg e)) = []"
      using dropWhile_no_clock[OF run_dispatch_failed(4)[OF Inr True, of n cfg], of "[]"]
      by simp
    then show ?thesis by (simp only: shutdown_calls_simps)
  next
    case False
    have c: "clock_reads ([ListRunning (Inr R), Print (MsgSummary (length R) (timeout cfg) (kill cfg))]
               @ (if zenity cfg then [Print MsgZenitySending] else [])
               @ fst (dispatch_shutdown e 0 R False)) = []"
      by (simp add: trace_simps dispatch_shutdown_silent)
    have "\<exists>rest. snd (run n cfg e) =
            ([ListRunning (Inr R), Print (MsgSummary (length R) (timeout cfg) (kill cfg))]
               @ (if zenity cfg then [Print MsgZenitySending] else [])
               @ fst (dispatch_shutdown e 0 R False))
            @ TimeNow (clock e 0) # rest \<and> shutdown_calls rest = []"
      using Inr False
      by (simp add: run_def Let_def trace_simps poll_loop_shutdown_calls
          split: option.splits loop_end.splits)
    then obtain rest where r: "snd (run n cfg e) =
            ([ListRunning (Inr R), Print (MsgSummary (length R) (timeout cfg) (kill cfg))]
               @ (if zenity cfg then [Print MsgZenitySending] else [])
               @ fst (dispatch_shutdown e 0 R False))
            @ TimeNow (clock e 0) # rest" and s: "shutdown_calls rest = []" by blast
    show ?thesis unfolding r dropWhile_no_clock[OF c] using s by (simp add: trace_simps)
  qed
qed

lemma run_shutdown_targets:
  "map fst (shutdown_calls (snd (run n cfg e))) =
     (case list_running_vms e 0 of Inl err \<Rightarrow> [] | Inr R \<Rightarrow> R)"
proof (cases "list_running_vms e 0")
  case (Inl err)
  from run_list_failed[OF this, of n cfg] Inl show ?thesis by (simp add: trace_simps)
next
  case (Inr R)
  show ?thesis
  proof (cases "snd (dispatch_shutdown e 0 R False)")
    case True
    from run_dispatch_failed(2)[OF Inr True, of n cfg] Inr show ?thesis
      by (simp add: dispatch_shutdown_targets)
  next
    case False
    from run_polling(2)[OF Inr False, of n cfg] Inr show ?thesis
      by (simp add: dispatch_shutdown_targets)
  qed
qed

lemma map_fst_calls: "map fst (map (\<lambda>p. (snd p, f (fst p) (snd p))) (enumerate i xs)) = xs"
  by (simp add: comp_def)

text \<open>
  C10. In every run the machines that are sent \<^verbatim>\<open>virsh shutdown\<close> are exactly those of the
  inventory taken before dispatch, each once and in order (none if that query failed);
  no \<^verbatim>\<open>virsh shutdown\<close> is sent after the clock has first been read (\<^verbatim>\<open>t0\<close>, taken
  immediately before the poll loop), and the poll loop itself sends none, whatever the
  later inventories contain. The \<^verbatim>\<open>virsh destroy\<close> requests of a run, if there are any, go
  to the machines of the last inventory, so a machine that first appears in a later
  inventory is never asked to shut down and can only be force-terminated.
\<close>

theorem shutdown_only_in_dispatch:
  "map fst (shutdown_calls (snd (run n cfg e))) =
     (case list_running_vms e 0 of Inl err \<Rightarrow> [] | Inr R \<Rightarrow> R) \<and>
   shutdown_calls (dropWhile (\<lambda>ev. clock_of ev = []) (snd (run n cfg e))) = [] \<and>
   shutdown_calls (snd (poll_loop n cfg e t0 k R' a)) = [] \<and>
   (destroy_calls (snd (run n cfg e)) = [] \<or>
    map fst (destroy_calls (snd (run n cfg e))) = last_listed (snd (run n cfg e)))"
proof -
  have "destroy_calls (snd (run n cfg e)) = [] \<or>
    map fst (destroy_calls (snd (run n cfg e))) = last_listed (snd (run n cfg e))"
    using run_destroy_targets [of n cfg e] map_fst_calls [of "virsh_destroy e" 0 "last_listed (snd (run n cfg e))"]
    by auto
  then show ?thesis
    using run_shutdown_targets [of n cfg e] run_no_shutdown_after_clock [of n cfg e]
      poll_loop_shutdown_calls [of n cfg e t0 k R' a]
    by blast
qed

lemma run_late_machine:
  "run 5 cfg_t2_kill env_late_machine =
    (Some (Exit 0),
     [ListRunning (Inr [''a'']), Print (MsgSummary 1 (Fin 2) True),
      VirshShutdown ''a'' 0, TimeNow 0, TimeNow 1, Sleep (Fin 1),
      ListRunning (Inr [''b'']), TimeNow 2, Sleep (Fin 1),
      ListRunning (Inr [''b'']), TimeNow 3, Print (MsgStillWaiting 3 1),
      Print (MsgVmList [''b'']), Print (MsgTimeoutKill (Fin 2)),
      VirshDestroy ''b'' 0, Print (MsgAllDown False)])"
  by (simp add: run_eval cfg_t2_kill_def env_late_machine_def)

theorem shutdown_only_in_dispatch_witness:
  "list_running_vms env_late_machine 0 = Inr [''a''] \<and>
   map fst (shutdown_calls (snd (run 5 cfg_t2_kill env_late_machine))) = [''a''] \<and>
   shutdown_calls (dropWhile (\<lambda>ev. clock_of ev = [])
     (snd (run 5 cfg_t2_kill env_late_machine))) = [] \<and>
   list_results (snd (run 5 cfg_t2_kill env_late_machine)) =
     [Inr [''a''], Inr [''b''], Inr [''b'']] \<and>
   destroy_calls (snd (run 5 cfg_t2_kill env_late_machine)) \<noteq> [] \<and>
   map fst (destroy_calls (snd (run 5 cfg_t2_kill env_late_machine))) = [''b''] \<and>
   last_listed (snd (run 5 cfg_t2_kill env_late_machine)) = [''b'']"
proof -
  have l: "list_running_vms env_late_machine 0 = Inr [''a'']"
    by (simp add: run_eval env_late_machine_def)
  have r: "list_results (snd (run 5 cfg_t2_kill env_late_machine)) =
     [Inr [''a''], Inr [''b''], Inr [''b'']]"
    unfolding run_late_machine by (simp add: trace_simps)
  have d: "destroy_calls (snd (run 5 cfg_t2_kill env_late_machine)) = [(''b'', 0)]"
    unfolding run_late_machine by (simp add: trace_simps)
  from shutdown_only_in_dispatch [of 5 cfg_t2_kill env_late_machine 0 1 "[''a'']" False] l r d
  show ?thesis by simp
qed

subsection \<open>What an iteration prints\<close>








subsection \<open>Output flags and control flow\<close>

lemma run_inf_zenity:
  "run 5 cfg_inf_zenity env_stop_after_2 =
    (Some (Uncaught OverflowError),
     [ListRunning (Inr [''a'', ''b'', ''c'']), Print (MsgSummary 3 PInf False),
      Print MsgZenitySending, VirshShutdown ''a'' 0, VirshShutdown ''b'' 0,
      VirshShutdown ''c'' 0, TimeNow 0, TimeNow 1])"
  by (simp add: run_eval cfg_inf_zenity_def env_stop_after_2_def)

lemma run_inf:
  "run 5 cfg_inf env_stop_after_2 =
    (Some (Exit 0),
     [ListRunning (Inr [''a'', ''b'', ''c'']), Print (MsgSummary 3 PInf False),
      VirshShutdown ''a'' 0, VirshShutdown ''b'' 0, VirshShutdown ''c'' 0,
      TimeNow 0, TimeNow 1, Sleep (Fin 1),
      ListRunning (Inr [''a'', ''b'', ''c'']), TimeNow 2, Sleep (Fin 1),
      ListRunning (Inr []), Print (MsgAllDown False)])"
  by (simp add: run_eval cfg_inf_def env_stop_after_2_def)

text \<open>
  C9. Two runs against the same environment (three machines that are gone at the second
  poll) whose configurations differ only in \<^verbatim>\<open>--zenity\<close>, with \<^verbatim>\<open>--timeout inf\<close>: without
  the flag the run ends with exit code 0; with it, \<^verbatim>\<open>int(options.timeout - t)\<close> on
  line 74 raises OverflowError in the first iteration and the run ends in an uncaught
  exception.
\<close>

theorem zenity_changes_outcome:
  "cfg_inf_zenity = cfg_inf\<lparr>zenity := True\<rparr> \<and>
   fst (run 5 cfg_inf env_stop_after_2) = Some (Exit 0) \<and>
   fst (run 5 cfg_inf_zenity env_stop_after_2) = Some (Uncaught OverflowError)"
  by (simp add: run_inf run_inf_zenity) (simp add: cfg_inf_def cfg_inf_zenity_def)

text \<open>
  Where the progress lines cannot raise (a finite, non-zero timeout), the two output
  flags do not influence the result or anything the script does apart from printing.
\<close>

lemma force_terminate_flags:
  "snd (force_terminate cfg' e i R a) = snd (force_terminate cfg e i R a)"
  "actions (fst (force_terminate cfg' e i R a)) = actions (fst (force_terminate cfg e i R a))"
  by (simp_all add: force_terminate_flag force_terminate_calls force_terminate_actions)

lemma zenity_progress_same_timeout:
  "timeout cfg' = timeout cfg \<Longrightarrow> snd (zenity_progress cfg' t n) = snd (zenity_progress cfg t n)"
  by (simp add: zenity_progress_def split: sum.splits)

lemma poll_body_step_normal:
  assumes "zenity cfg \<longrightarrow> snd (zenity_progress cfg (clock e k - t0) (length R)) = None"
  shows "snd (poll_body cfg e t0 k R a) =
          (if gt_rf (clock e k - t0) (timeout cfg) then
             (if kill cfg then (if snd (force_terminate cfg e 0 R a) then Stop (Exit 3) else Break)
              else Stop (Exit 1))
           else (case py_sleep (interval cfg) of
                   Some err \<Rightarrow> Stop (Uncaught err)
                 | None \<Rightarrow> (case list_running_vms e k of
                               Inl err \<Rightarrow> Stop (Uncaught err)
                             | Inr vms \<Rightarrow> Continue vms)))"
  using assms
  by (simp add: poll_body_def Let_def split: option.splits sum.splits)

lemma poll_body_actions_normal:
  assumes "zenity cfg \<longrightarrow> snd (zenity_progress cfg (clock e k - t0) (length R)) = None"
  shows "actions (fst (poll_body cfg e t0 k R a)) =
          TimeNow (clock e k) #
          (if gt_rf (clock e k - t0) (timeout cfg) then
             (if kill cfg then actions (fst (force_terminate cfg e 0 R a)) else [])
           else (case py_sleep (interval cfg) of
                   Some err \<Rightarrow> []
                 | None \<Rightarrow> [Sleep (interval cfg), ListRunning (list_running_vms e k)]))"
  using assms
  by (simp add: poll_body_def Let_def trace_simps zenity_progress_actions
      split: option.splits sum.splits)


lemma zenity_progress_safe:
  assumes "zenity cfg \<longrightarrow> (\<exists>x. timeout cfg = Fin x \<and> x \<noteq> 0)"
  shows "zenity cfg \<longrightarrow> snd (zenity_progress cfg t n) = None"
  using assms by (auto simp: zenity_progress_finite)

lemma poll_body_flags:
  assumes "interval cfg' = interval cfg" and "timeout cfg' = timeout cfg" and "kill cfg' = kill cfg"
    and ok: "zenity cfg \<longrightarrow> snd (zenity_progress cfg (clock e k - t0) (length R)) = None"
    and ok': "zenity cfg' \<longrightarrow> snd (zenity_progress cfg' (clock e k - t0) (length R)) = None"
  shows "snd (poll_body cfg' e t0 k R a) = snd (poll_body cfg e t0 k R a)"
    and "actions (fst (poll_body cfg' e t0 k R a)) = actions (fst (poll_body cfg e t0 k R a))"
  using assms(1-3) force_terminate_flags [of cfg' e 0 R a cfg]
  by (simp_all add: poll_body_step_normal[OF ok] poll_body_step_normal[OF ok']
      poll_body_actions_normal[OF ok] poll_body_actions_normal[OF ok'] split: option.splits)

lemma poll_loop_flags:
  assumes "interval cfg' = interval cfg" and "timeout cfg' = timeout cfg" and "kill cfg' = kill cfg"
    and "\<exists>x. timeout cfg = Fin x \<and> x \<noteq> 0"
  shows "fst (poll_loop n cfg' e t0 k R a) = fst (poll_loop n cfg e t0 k R a) \<and>
         actions (snd (poll_loop n cfg' e t0 k R a)) = actions (snd (poll_loop n cfg e t0 k R a))"
proof (induction n arbitrary: k R)
  case 0
  show ?case by simp
next
  case (Suc n)
  have ok: "zenity cfg \<longrightarrow> snd (zenity_progress cfg (clock e k - t0) (length R)) = None"
    using assms(4) by (intro zenity_progress_safe) simp
  have ok': "zenity cfg' \<longrightarrow> snd (zenity_progress cfg' (clock e k - t0) (length R)) = None"
    using assms(2,4) by (intro zenity_progress_safe) simp
  note b = poll_body_flags[OF assms(1-3) ok ok', of a]
  show ?case
    by (cases "snd (poll_body cfg e t0 k R a)")
       (simp_all add: b Let_def trace_simps Suc.IH)
qed

lemma run_flags_irrelevant:
  assumes "interval cfg' = interval cfg" and "timeout cfg' = timeout cfg" and "kill cfg' = kill cfg"
    and "\<exists>x. timeout cfg = Fin x \<and> x \<noteq> 0"
  shows "fst (run n cfg' e) = fst (run n cfg e) \<and>
         actions (snd (run n cfg' e)) = actions (snd (run n cfg e))"
proof (cases "list_running_vms e 0")
  case (Inl err)
  then show ?thesis by (simp add: run_def)
next
  case (Inr R)
  show ?thesis
  proof (cases "snd (dispatch_shutdown e 0 R False)")
    case True
    with Inr show ?thesis by (simp add: run_def Let_def trace_simps)
  next
    case False
    from poll_loop_flags[OF assms, of n e "clock e 0" 1 R False]
    show ?thesis
      by (simp add: run_polling(1)[OF Inr False] run_polling_actions[OF Inr False])
  qed
qed

subsection \<open>Enough fuel reaches the empty running set\<close>

lemma poll_loop_all_down:
  assumes "py_sleep (interval cfg) = None"
    and "zenity cfg \<longrightarrow> (\<exists>x. timeout cfg = Fin x \<and> x \<noteq> 0)"
    and "\<forall>j<m. \<not> gt_rf (clock e (k + j) - t0) (timeout cfg) \<and>
               (\<exists>vms. list_running_vms e (k + j) = Inr vms \<and> (vms = []) = (Suc j = m))"
    and "(R = []) = (m = 0)" and "m \<le> n"
  shows "fst (poll_loop n cfg e t0 k R a) = Some LoopDone"
  using assms(3-5)
proof (induction m arbitrary: n k R)
  case 0
  then show ?case by (simp add: poll_loop_Nil)
next
  case (Suc m)
  from Suc.prems(3) obtain n' where n: "n = Suc n'" and le: "m \<le> n'"
    by (cases n) simp_all
  from Suc.prems(2) have ne: "R \<noteq> []" by simp
  from Suc.prems(1) have "\<not> gt_rf (clock e (k + 0) - t0) (timeout cfg) \<and>
      (\<exists>vms. list_running_vms e (k + 0) = Inr vms \<and> (vms = []) = (Suc 0 = Suc m))"
    by blast
  then obtain vms where g: "\<not> gt_rf (clock e k - t0) (timeout cfg)"
    and l: "list_running_vms e k = Inr vms" and v: "(vms = []) = (m = 0)" by auto
  have c: "snd (poll_body cfg e t0 k R a) = Continue vms"
    by (rule poll_body_continues(1)[OF g zenity_progress_safe[OF assms(2)] assms(1) l])
  have "\<forall>j<m. \<not> gt_rf (clock e (Suc k + j) - t0) (timeout cfg) \<and>
               (\<exists>vms. list_running_vms e (Suc k + j) = Inr vms \<and> (vms = []) = (Suc j = m))"
  proof (intro allI impI)
    fix j assume "j < m"
    then have "Suc j < Suc m" by simp
    with Suc.prems(1) have "\<not> gt_rf (clock e (k + Suc j) - t0) (timeout cfg) \<and>
      (\<exists>vms. list_running_vms e (k + Suc j) = Inr vms \<and> (vms = []) = (Suc (Suc j) = Suc m))"
      by blast
    then show "\<not> gt_rf (clock e (Suc k + j) - t0) (timeout cfg) \<and>
               (\<exists>vms. list_running_vms e (Suc k + j) = Inr vms \<and> (vms = []) = (Suc j = m))"
      by simp
  qed
  from Suc.IH[OF this v le] show ?case using n ne c by (simp add: Let_def)
qed

text \<open>
  If dispatch succeeds, the first \<open>m\<close> polls are all within the timeout and raise no
  exception, and the \<open>m\<close>-th inventory is the first empty one, then every run with fuel
  for at least \<open>m\<close> iterations ends with exit code 0.
\<close>

lemma run_reaches_all_down:
  assumes "list_running_vms e 0 = Inr R"
    and "\<not> (\<exists>j<length R. virsh_shutdown e j (R ! j) \<noteq> 0)"
    and "py_sleep (interval cfg) = None"
    and "zenity cfg \<longrightarrow> (\<exists>x. timeout cfg = Fin x \<and> x \<noteq> 0)"
    and "\<forall>j<m. \<not> gt_rf (clock e (1 + j) - clock e 0) (timeout cfg) \<and>
               (\<exists>vms. list_running_vms e (1 + j) = Inr vms \<and> (vms = []) = (Suc j = m))"
    and "(R = []) = (m = 0)" and "m \<le> n"
  shows "fst (run n cfg e) = Some (Exit 0)"
proof -
  have d: "\<not> snd (dispatch_shutdown e 0 R False)"
    using assms(2) by (simp add: dispatch_shutdown_flag_env)
  from poll_loop_all_down[OF assms(3,4,5,6,7), of False]
  show ?thesis by (simp add: run_polling(1)[OF assms(1) d])
qed

end
